theory Spec2Isabelle
  imports Complex_Main "HOL-Library.Monad_Syntax"
begin

section \<open>Vec3d algebra\<close>

text \<open>
  The source works on \<open>Vec3d\<close>, three doubles. The class itself (VecMath.hpp) is not part
  of the sources at hand, only its uses are. Doubles are taken as exact reals throughout:
  the properties below are statements of real arithmetic, rounding is out of their reach.
\<close>

datatype Vec3d = Vec3d real real real

text \<open>\<open>v[i]\<close> for \<open>i\<close> in 0, 1, 2; every caller below checks the index first.\<close>

fun vidx :: "Vec3d \<Rightarrow> nat \<Rightarrow> real" where
  "vidx (Vec3d a b c) i = (if i = 0 then a else if i = 1 then b else c)"

text \<open>Modelled from the spec: the Vec3 algebra (dot product \<open>*\<close>, cross product \<open>^\<close>,
  scaling \<open>*=\<close>, sum \<open>+=\<close>, \<open>normalize\<close>), whose class VecMath.hpp is missing.\<close>

fun dot :: "Vec3d \<Rightarrow> Vec3d \<Rightarrow> real" where
  "dot (Vec3d a b c) (Vec3d d e f) = a * d + b * e + c * f"

fun cross :: "Vec3d \<Rightarrow> Vec3d \<Rightarrow> Vec3d" where
  "cross (Vec3d a b c) (Vec3d d e f) = Vec3d (b * f - c * e) (c * d - a * f) (a * e - b * d)"

fun scale :: "Vec3d \<Rightarrow> real \<Rightarrow> Vec3d" where
  "scale (Vec3d a b c) s = Vec3d (a * s) (b * s) (c * s)"

fun vadd :: "Vec3d \<Rightarrow> Vec3d \<Rightarrow> Vec3d" where
  "vadd (Vec3d a b c) (Vec3d d e f) = Vec3d (a + d) (b + e) (c + f)"

fun setZ :: "Vec3d \<Rightarrow> real \<Rightarrow> Vec3d" where
  "setZ (Vec3d a b c) z = Vec3d a b z"

definition lengthSquared :: "Vec3d \<Rightarrow> real" where
  "lengthSquared v = dot v v"

definition normalize :: "Vec3d \<Rightarrow> Vec3d" where
  "normalize v = scale v (1 / sqrt (lengthSquared v))"

section \<open>Edge vertices and sub-contours\<close>

record EdgeVertex =
  vertex :: Vec3d
  edgeFlag :: bool

type_synonym SubContour = "EdgeVertex list"

section \<open>Octant directions and bounding-cap predicates\<close>

definition sideDirections :: "Vec3d list" where
  "sideDirections =
     [Vec3d 1 1 1, Vec3d 1 1 (-1), Vec3d (-1) 1 1, Vec3d (-1) 1 (-1),
      Vec3d 1 (-1) 1, Vec3d 1 (-1) (-1), Vec3d (-1) (-1) 1, Vec3d (-1) (-1) (-1)]"

definition intersectsBoundingCap :: "Vec3d \<Rightarrow> real \<Rightarrow> Vec3d \<Rightarrow> real \<Rightarrow> bool" where
  "intersectsBoundingCap n1 d1 n2 d2 =
     (let a = d1 * d2 - dot n1 n2
      in d1 + d2 \<le> 0 \<or> a \<le> 0 \<or> (a \<le> 1 \<and> a * a \<le> (1 - d1 * d1) * (1 - d2 * d2)))"

definition containsBoundingCap :: "Vec3d \<Rightarrow> real \<Rightarrow> Vec3d \<Rightarrow> real \<Rightarrow> bool" where
  "containsBoundingCap n1 d1 n2 d2 =
     (let a = dot n1 n2 - d1 * d2
      in d1 \<le> d1 \<and> (a \<ge> 1 \<or> (a \<ge> 0 \<and> a * a \<ge> (1 - d1 * d1) * (1 - d2 * d2))))"

text \<open>\<open>getSide\<close>: 0 for the half-space \<open>v[onLine] \<ge> 0\<close>, 1 for the other one.\<close>

definition getSide :: "Vec3d \<Rightarrow> nat \<Rightarrow> nat" where
  "getSide v onLine = (if vidx v onLine \<ge> 0 then 0 else 1)"

section \<open>Projection on the octahedron and back\<close>

text \<open>The body of the innermost loop of \<open>projectOnOctahedron\<close>: scale the vertex by
  \<open>1 / (sideDirection * v)\<close>, then set its third component to 0.\<close>

definition projectVertex :: "Vec3d \<Rightarrow> EdgeVertex \<Rightarrow> EdgeVertex" where
  "projectVertex sideDirection v =
     v\<lparr>vertex := setZ (scale (vertex v) (1 / dot sideDirection (vertex v))) 0\<rparr>"

text \<open>\<open>projectOnOctahedron\<close> runs over the eight faces, the sub-contours of each face and
  the vertices of each sub-contour. It asserts that there are exactly eight faces; with
  another number the loop would read past the array, which is the error \<open>None\<close>.\<close>

definition projectOnOctahedron :: "SubContour list list \<Rightarrow> SubContour list list option" where
  "projectOnOctahedron inSides =
     (if length inSides \<noteq> 8 then None
      else Some (map (\<lambda>i. map (map (projectVertex (sideDirections ! i))) (inSides ! i)) [0 ..< 8]))"

definition unprojectOctahedron :: "Vec3d \<Rightarrow> Vec3d \<Rightarrow> Vec3d" where
  "unprojectOctahedron v sideDirection =
     normalize (setZ v ((1 - dot sideDirection v) / vidx sideDirection 2))"

section \<open>Splitting a contour by a coordinate plane\<close>

text \<open>
  \<open>greatCircleIntersection\<close> (StelSphereGeometry) is not part of the sources at hand. It is
  a parameter of the model: given the two end points of a segment and the normal of the
  plane, it returns the intersection point, or \<open>None\<close> when it reports \<open>ok = false\<close>.
\<close>

type_synonym GreatCircleIntersection = "Vec3d \<Rightarrow> Vec3d \<Rightarrow> Vec3d \<Rightarrow> Vec3d option"

definition plan :: "nat \<Rightarrow> Vec3d" where
  "plan onLine =
     Vec3d (if onLine = 0 then 1 else 0) (if onLine = 1 then 1 else 0) (if onLine = 2 then 1 else 0)"

text \<open>The local variables of \<open>splitContourByPlan\<close> that live across its loops, and the
  two output lists \<open>result[0]\<close>, \<open>result[1]\<close>.\<close>

record SplitState =
  currentSubContour :: SubContour
  unfinishedSubContour :: SubContour
  previousQuadrant :: nat
  currentQuadrant :: nat
  previousVertex :: EdgeVertex
  splitResult :: "SubContour list \<times> SubContour list"

text \<open>\<open>result[q] << c\<close>, for \<open>q\<close> the value of \<open>getSide\<close>, which is 0 or 1.\<close>

definition appendToResult ::
  "nat \<Rightarrow> SubContour \<Rightarrow> SubContour list \<times> SubContour list \<Rightarrow> SubContour list \<times> SubContour list" where
  "appendToResult q c r = (if q = 0 then (fst r @ [c], snd r) else (fst r, snd r @ [c]))"

text \<open>\<open>c.last().edgeFlag = false\<close>; \<open>last()\<close> of an empty vector is an error.\<close>

definition setLastEdgeFlagFalse :: "SubContour \<Rightarrow> SubContour option" where
  "setLastEdgeFlagFalse c =
     (if c = [] then None else Some (butlast c @ [(last c)\<lparr>edgeFlag := False\<rparr>]))"

text \<open>The first loop: it runs over the vertices from index 0 and stops, by \<open>break\<close>, at the
  first vertex on the other side, which is handed over (not consumed) to the second loop.\<close>

fun firstLoop ::
  "GreatCircleIntersection \<Rightarrow> nat \<Rightarrow> EdgeVertex list \<Rightarrow> SplitState \<Rightarrow> SplitState \<times> EdgeVertex list" where
  "firstLoop gci onLine [] st = (st, [])"
| "firstLoop gci onLine (currentVertex # rest) st =
     (let cq = getSide (vertex currentVertex) onLine
      in if cq = previousQuadrant st
         then firstLoop gci onLine rest
                (st\<lparr>unfinishedSubContour := unfinishedSubContour st @ [currentVertex],
                    currentQuadrant := cq, previousVertex := currentVertex\<rparr>)
         else (case gci (vertex (previousVertex st)) (vertex currentVertex) (plan onLine) of
                 None \<Rightarrow>
                   (st\<lparr>currentQuadrant := cq, previousQuadrant := cq\<rparr>, currentVertex # rest)
               | Some tmpVertex \<Rightarrow>
                   (st\<lparr>unfinishedSubContour :=
                         unfinishedSubContour st @ [\<lparr>vertex = tmpVertex, edgeFlag = False\<rparr>],
                       currentSubContour :=
                         currentSubContour st @ [\<lparr>vertex = tmpVertex, edgeFlag = False\<rparr>],
                       currentQuadrant := cq, previousQuadrant := cq\<rparr>,
                    currentVertex # rest)))"

text \<open>The second loop, over the remaining vertices.\<close>

fun secondLoop ::
  "GreatCircleIntersection \<Rightarrow> nat \<Rightarrow> EdgeVertex list \<Rightarrow> SplitState \<Rightarrow> SplitState option" where
  "secondLoop gci onLine [] st = Some st"
| "secondLoop gci onLine (currentVertex # rest) st =
     (let cq = getSide (vertex currentVertex) onLine
      in if cq = previousQuadrant st
         then secondLoop gci onLine rest
                (st\<lparr>currentSubContour := currentSubContour st @ [currentVertex],
                    currentQuadrant := cq, previousVertex := currentVertex\<rparr>)
         else (case gci (vertex (previousVertex st)) (vertex currentVertex) (plan onLine) of
                 None \<Rightarrow>
                   (case setLastEdgeFlagFalse (currentSubContour st) of
                      None \<Rightarrow> None
                    | Some finished \<Rightarrow>
                        secondLoop gci onLine rest
                          (st\<lparr>splitResult := appendToResult (previousQuadrant st) finished (splitResult st),
                              currentSubContour := [currentVertex\<lparr>edgeFlag := False\<rparr>],
                              previousQuadrant := cq, currentQuadrant := cq,
                              previousVertex := currentVertex\<rparr>))
               | Some tmpVertex \<Rightarrow>
                   secondLoop gci onLine rest
                     (st\<lparr>splitResult :=
                           appendToResult (previousQuadrant st)
                             (currentSubContour st @ [\<lparr>vertex = tmpVertex, edgeFlag = False\<rparr>])
                             (splitResult st),
                         currentSubContour := [\<lparr>vertex = tmpVertex, edgeFlag = False\<rparr>, currentVertex],
                         previousQuadrant := cq, currentQuadrant := cq,
                         previousVertex := currentVertex\<rparr>)))"

text \<open>The segment from the last vertex back to the first one, and the final append of the
  unfinished sub-contour.\<close>

definition closeContour ::
  "GreatCircleIntersection \<Rightarrow> nat \<Rightarrow> EdgeVertex \<Rightarrow> SplitState \<Rightarrow>
     (SubContour list \<times> SubContour list) option" where
  "closeContour gci onLine firstVertex st =
     (let pq = currentQuadrant st; cq = getSide (vertex firstVertex) onLine
      in if cq = pq
         then Some (appendToResult cq (currentSubContour st @ unfinishedSubContour st) (splitResult st))
         else (case gci (vertex (previousVertex st)) (vertex firstVertex) (plan onLine) of
                 None \<Rightarrow>
                   (case setLastEdgeFlagFalse (currentSubContour st) of
                      None \<Rightarrow> None
                    | Some finished \<Rightarrow>
                        Some (appendToResult cq (unfinishedSubContour st)
                                (appendToResult pq finished (splitResult st))))
               | Some tmpVertex \<Rightarrow>
                   Some (appendToResult cq
                           (\<lparr>vertex = tmpVertex, edgeFlag = False\<rparr> # unfinishedSubContour st)
                           (appendToResult pq
                              (currentSubContour st @ [\<lparr>vertex = tmpVertex, edgeFlag = False\<rparr>])
                              (splitResult st)))))"

text \<open>\<open>splitContourByPlan\<close> appends to the two lists it is given. Reading the first vertex
  of an empty contour and an axis outside 0, 1, 2 are errors.\<close>

definition splitContourByPlan ::
  "GreatCircleIntersection \<Rightarrow> nat \<Rightarrow> SubContour \<Rightarrow> SubContour list \<times> SubContour list \<Rightarrow>
     (SubContour list \<times> SubContour list) option" where
  "splitContourByPlan gci onLine inputContour result =
     (if inputContour = [] \<or> \<not> onLine < 3 then None
      else
        let st0 = \<lparr>currentSubContour = [], unfinishedSubContour = [],
                   previousQuadrant = getSide (vertex (hd inputContour)) onLine,
                   currentQuadrant = 0, previousVertex = hd inputContour,
                   splitResult = result\<rparr>;
            (st1, rest) = firstLoop gci onLine inputContour st0
        in case secondLoop gci onLine rest st1 of
             None \<Rightarrow> None
           | Some st2 \<Rightarrow> closeContour gci onLine (hd inputContour) st2)"

text \<open>
  Where a vertex of an output sub-contour comes from. It is an original vertex when it is a
  vertex of the input contour, as it stands or with its edge flag cleared; it is a cut
  vertex when its edge flag is false and its position is what \<open>greatCircleIntersection\<close>
  returned for two vertices of the input contour and the plane. A vertex fits side \<open>q\<close>
  when it is an original vertex with \<open>getSide\<close> equal to \<open>q\<close>, or a cut vertex.
\<close>

definition originalVertex :: "SubContour \<Rightarrow> EdgeVertex \<Rightarrow> bool" where
  "originalVertex inputContour ev =
     (ev \<in> set inputContour \<or> ev \<in> (\<lambda>w. w\<lparr>edgeFlag := False\<rparr>) ` set inputContour)"

definition cutVertex :: "GreatCircleIntersection \<Rightarrow> nat \<Rightarrow> SubContour \<Rightarrow> EdgeVertex \<Rightarrow> bool" where
  "cutVertex gci onLine inputContour ev =
     (edgeFlag ev = False \<and>
      (\<exists>p \<in> set inputContour. \<exists>q \<in> set inputContour.
         gci (vertex p) (vertex q) (plan onLine) = Some (vertex ev)))"

definition fitsSide ::
  "GreatCircleIntersection \<Rightarrow> nat \<Rightarrow> SubContour \<Rightarrow> nat \<Rightarrow> EdgeVertex \<Rightarrow> bool" where
  "fitsSide gci onLine inputContour q ev =
     ((originalVertex inputContour ev \<and> getSide (vertex ev) onLine = q) \<or>
      cutVertex gci onLine inputContour ev)"

text \<open>Both output lists hold non-empty sub-contours of fitting vertices only.\<close>

definition resultFits ::
  "GreatCircleIntersection \<Rightarrow> nat \<Rightarrow> SubContour \<Rightarrow> SubContour list \<times> SubContour list \<Rightarrow> bool" where
  "resultFits gci onLine inputContour r =
     ((\<forall>c \<in> set (fst r). c \<noteq> [] \<and> (\<forall>ev \<in> set c. fitsSide gci onLine inputContour 0 ev)) \<and>
      (\<forall>c \<in> set (snd r). c \<noteq> [] \<and> (\<forall>ev \<in> set c. fitsSide gci onLine inputContour 1 ev)))"

section \<open>The polygon and its octahedral decomposition\<close>

record OctahedronPolygon =
  sides :: "SubContour list list"
  fillCachedVertexArray :: "Vec3d list"
  outlineCachedVertexArray :: "Vec3d list"
  capN :: Vec3d
  capD :: real

text \<open>A \<open>foreach\<close> loop calling \<open>splitContourByPlan\<close> on every sub-contour of a list, all
  calls appending to the same pair of output lists.\<close>

fun splitAll ::
  "GreatCircleIntersection \<Rightarrow> nat \<Rightarrow> SubContour list \<Rightarrow> SubContour list \<times> SubContour list \<Rightarrow>
     (SubContour list \<times> SubContour list) option" where
  "splitAll gci onLine [] result = Some result"
| "splitAll gci onLine (subContour # rest) result =
     (case splitContourByPlan gci onLine subContour result of
        None \<Rightarrow> None
      | Some result' \<Rightarrow> splitAll gci onLine rest result')"

text \<open>The body of the loop of \<open>appendSubContour\<close> that completes, by a pole, the sub-contours
  crossing from one side to the other. \<open>first()\<close> and \<open>last()\<close> of an empty sub-contour are
  errors. The two thresholds are the literals of the source.\<close>

definition completeWithPole :: "SubContour \<Rightarrow> SubContour option" where
  "completeWithPole tmpSubContour =
     (if tmpSubContour = [] then None
      else if edgeFlag (last tmpSubContour) = True then Some tmpSubContour
      else
        let v = cross (vertex (hd tmpSubContour)) (vertex (last tmpSubContour))
        in if vidx v 2 > 0.00000001
           then Some (tmpSubContour @ [\<lparr>vertex = Vec3d 0 0 (-1), edgeFlag = False\<rparr>])
           else if vidx v 2 < - 0.0000001
           then Some (tmpSubContour @ [\<lparr>vertex = Vec3d 0 0 1, edgeFlag = False\<rparr>])
           else Some tmpSubContour)"

text \<open>One round of the loop over \<open>c\<close>: complete every sub-contour of the quadrant, then split
  each by the plane Z=0 into the two faces of the quadrant.\<close>

definition completeAndSplit ::
  "GreatCircleIntersection \<Rightarrow> SubContour list \<Rightarrow> (SubContour list \<times> SubContour list) option" where
  "completeAndSplit gci quadrant =
     do {
       completed \<leftarrow> those (map completeWithPole quadrant);
       splitAll gci 2 completed ([], [])
     }"

definition appendSubContour ::
  "GreatCircleIntersection \<Rightarrow> SubContour \<Rightarrow> OctahedronPolygon \<Rightarrow> OctahedronPolygon option" where
  "appendSubContour gci inContour p =
     do {
       splittedContour1 \<leftarrow> splitContourByPlan gci 1 inContour ([], []);
       v01 \<leftarrow> splitAll gci 0 (fst splittedContour1) ([], []);
       v23 \<leftarrow> splitAll gci 0 (snd splittedContour1) ([], []);
       r01 \<leftarrow> completeAndSplit gci (fst v01);
       r23 \<leftarrow> completeAndSplit gci (snd v01);
       r45 \<leftarrow> completeAndSplit gci (fst v23);
       r67 \<leftarrow> completeAndSplit gci (snd v23);
       resultSides \<leftarrow> projectOnOctahedron
         [fst r01, snd r01, fst r23, snd r23, fst r45, snd r45, fst r67, snd r67];
       if length (sides p) \<noteq> 8 then None
       else Some (p\<lparr>sides := map (\<lambda>i. sides p ! i @ resultSides ! i) [0 ..< 8]\<rparr>)
     }"

section \<open>Tessellation driver and caches\<close>











section \<open>Boolean operations\<close>







section \<open>Queries\<close>

text \<open>\<open>trianglesArray[i]\<close>: reading past the end of the vector is an error.\<close>

definition vectorAt :: "'a list \<Rightarrow> nat \<Rightarrow> 'a option" where
  "vectorAt xs i = (if i < length xs then Some (xs ! i) else None)"

definition getPointInside :: "OctahedronPolygon \<Rightarrow> Vec3d option" where
  "getPointInside p =
     (let trianglesArray = fillCachedVertexArray p
      in do {
           t0 \<leftarrow> vectorAt trianglesArray 0;
           t1 \<leftarrow> vectorAt trianglesArray 1;
           t2 \<leftarrow> vectorAt trianglesArray 2;
           Some (normalize (vadd (vadd t0 t1) t2))
         })"

section \<open>The combine callback of the line-loop pass\<close>

record OctTessLineLoopCallbackData =
  result :: SubContour
  resultList :: "SubContour list"
  tempVertices :: "EdgeVertex list"

text \<open>The loop over \<open>vertex_data[i]\<close>: a null pointer (\<open>None\<close>) ends it by \<open>break\<close>.\<close>

fun combineFlags :: "EdgeVertex option list \<Rightarrow> bool \<Rightarrow> bool" where
  "combineFlags [] newFlag = newFlag"
| "combineFlags (None # rest) newFlag = newFlag"
| "combineFlags (Some v # rest) newFlag = combineFlags rest (newFlag \<or> edgeFlag v)"

text \<open>\<open>vertex_data\<close> is an array of four pointers, of which the loop reads indices 0 to 3.
  The callback returns the new vertex (\<open>*outData\<close>) and the updated user data.\<close>

definition combineLineLoopCallback ::
  "real \<times> real \<times> real \<Rightarrow> EdgeVertex option list \<Rightarrow> OctTessLineLoopCallbackData \<Rightarrow>
     EdgeVertex \<times> OctTessLineLoopCallbackData" where
  "combineLineLoopCallback coords vertex_data userData =
     (let newFlag = combineFlags (take 4 vertex_data) False;
          newVertex = \<lparr>vertex = Vec3d (fst coords) (fst (snd coords)) (snd (snd coords)),
                       edgeFlag = newFlag\<rparr>
      in (newVertex, userData\<lparr>tempVertices := tempVertices userData @ [newVertex]\<rparr>))"

section \<open>JSON dump of a sub-contour\<close>

text \<open>
  \<open>StelUtils::rectToSphe\<close> (right ascension and declination of a vector) and
  \<open>QString::number(x, 'g', 12)\<close> are library functions, parameters of the model.
\<close>

definition vertexJSON :: "(Vec3d \<Rightarrow> real \<times> real) \<Rightarrow> (real \<Rightarrow> string) \<Rightarrow> EdgeVertex \<Rightarrow> string" where
  "vertexJSON rectToSphe number v =
     (let (ra, dec) = rectToSphe (vertex v)
      in ''['' @ number (ra * 180 / pi) @ '','' @ number (dec * 180 / pi) @ '','' @
         (if edgeFlag v then ''true'' else ''false'') @ ''],'')"

text \<open>The string \<open>res\<close> after the \<open>foreach\<close> loop, which starts from \<open>"["\<close>.\<close>

definition toJSONLoop :: "(Vec3d \<Rightarrow> real \<times> real) \<Rightarrow> (real \<Rightarrow> string) \<Rightarrow> SubContour \<Rightarrow> string" where
  "toJSONLoop rectToSphe number c =
     foldl (\<lambda>res v. res @ vertexJSON rectToSphe number v) ''['' c"

text \<open>\<open>res[res.size()-1] = ']'\<close>; \<open>res\<close> holds at least the opening bracket, so the index
  is in range.\<close>

definition toJSON :: "(Vec3d \<Rightarrow> real \<times> real) \<Rightarrow> (real \<Rightarrow> string) \<Rightarrow> SubContour \<Rightarrow> string" where
  "toJSON rectToSphe number c =
     (let res = toJSONLoop rectToSphe number c
      in res[length res - 1 := CHR '']''])"

section \<open>Bounding-cap predicates\<close>

text \<open>
  C1. For all vectors \<open>n1\<close>, \<open>n2\<close> (unit or not) and all reals \<open>d1\<close>, \<open>d2\<close>,
  \<open>containsBoundingCap\<close> is true exactly when \<open>a \<ge> 1\<close>, or \<open>a \<ge> 0\<close> and
  \<open>a\<^sup>2 \<ge> (1 - d1\<^sup>2)(1 - d2\<^sup>2)\<close>, for \<open>a = n1 \<cdot> n2 - d1 d2\<close>: the guard \<open>d1 \<le> d1\<close> of the
  source holds for every real and changes nothing.
\<close>

theorem containsBoundingCap_formula:
  "containsBoundingCap n1 d1 n2 d2 =
     (let a = dot n1 n2 - d1 * d2
      in a \<ge> 1 \<or> (a \<ge> 0 \<and> a * a \<ge> (1 - d1 * d1) * (1 - d2 * d2)))"
  by (simp add: containsBoundingCap_def)

theorem containsBoundingCap_formula_witness:
  "containsBoundingCap (Vec3d 0 0 1) (1 / 2) (Vec3d 0 0 1) (9 / 10) \<and>
   containsBoundingCap (Vec3d 0 0 1) (9 / 10) (Vec3d 0 0 1) (1 / 2) \<and>
   \<not> containsBoundingCap (Vec3d 0 0 1) (1 / 2) (Vec3d 1 0 0) (1 / 2)"
  using containsBoundingCap_formula [of "Vec3d 0 0 1" "1 / 2" "Vec3d 0 0 1" "9 / 10"]
    containsBoundingCap_formula [of "Vec3d 0 0 1" "9 / 10" "Vec3d 0 0 1" "1 / 2"]
    containsBoundingCap_formula [of "Vec3d 0 0 1" "1 / 2" "Vec3d 1 0 0" "1 / 2"]
  by (simp add: Let_def)

lemma sentinel_rhs_nonpos:
  assumes "-1 \<le> d2" "d2 \<le> (1::real)"
  shows "(1 - 2 * 2) * (1 - d2 * d2) \<le> 0"
proof -
  have "0 \<le> (1 - d2) * (1 + d2)" using assms by simp
  then have "0 \<le> 1 - d2 * d2" by (simp add: algebra_simps)
  then have "(-3) * (1 - d2 * d2) \<le> 0" by simp
  then show ?thesis by simp
qed

text \<open>
  Counterexample to C2 as stated. The empty-cap sentinel \<open>capN = (1,0,0)\<close>, \<open>capD = 2\<close> against the cap of normal \<open>(1,0,0)\<close>
  and \<open>d2 = 0\<close>, a hemisphere: both predicates answer true.
\<close>

theorem empty_cap_counterexample:
  "lengthSquared (Vec3d 1 0 0) = 1 \<and> (-1::real) \<le> 0 \<and> (0::real) \<le> 1 \<and>
   intersectsBoundingCap (Vec3d 1 0 0) 2 (Vec3d 1 0 0) 0 \<and>
   containsBoundingCap (Vec3d 1 0 0) 2 (Vec3d 1 0 0) 0"
  by (simp add: lengthSquared_def intersectsBoundingCap_def containsBoundingCap_def)

text \<open>
  C2, as the code has it. For every vector \<open>n2\<close> and every \<open>d2\<close> in \<open>[-1, 1]\<close>, both
  predicates, called with the sentinel \<open>(1,0,0)\<close>, \<open>2\<close> as first cap, return the truth value of
  \<open>2 d2 \<le> n2.x\<close>. They are false together exactly for the caps with \<open>n2.x < 2 d2\<close>, among
  them every unit-normal cap with \<open>d2 > 1/2\<close>, and true together for all the others.
\<close>

theorem empty_cap_exact:
  assumes "-1 \<le> d2" and "d2 \<le> 1"
  shows "intersectsBoundingCap (Vec3d 1 0 0) 2 n2 d2 = (2 * d2 \<le> vidx n2 0) \<and>
         containsBoundingCap (Vec3d 1 0 0) 2 n2 d2 = (2 * d2 \<le> vidx n2 0)"
proof -
  obtain x y z where n2: "n2 = Vec3d x y z" by (cases n2)
  have r: "(1 - 2 * 2) * (1 - d2 * d2) \<le> 0" using assms by (rule sentinel_rhs_nonpos)
  have sq: "0 \<le> (2 * d2 - x) * (2 * d2 - x)" by simp
  have sq': "0 \<le> (x - 2 * d2) * (x - 2 * d2)" by simp
  have i: "intersectsBoundingCap (Vec3d 1 0 0) 2 n2 d2 = (2 * d2 \<le> vidx n2 0)"
  proof
    assume "intersectsBoundingCap (Vec3d 1 0 0) 2 n2 d2"
    then consider "2 + d2 \<le> 0" | "2 * d2 - x \<le> 0"
      | "(2 * d2 - x) * (2 * d2 - x) \<le> (1 - 2 * 2) * (1 - d2 * d2)"
      by (auto simp: intersectsBoundingCap_def n2 Let_def)
    then show "2 * d2 \<le> vidx n2 0"
    proof cases
      case 1 then show ?thesis using assms by simp
    next
      case 2 then show ?thesis by (simp add: n2)
    next
      case 3
      with r sq have "(2 * d2 - x) * (2 * d2 - x) = 0" by linarith
      then show ?thesis by (simp add: n2)
    qed
  next
    assume "2 * d2 \<le> vidx n2 0"
    then show "intersectsBoundingCap (Vec3d 1 0 0) 2 n2 d2"
      by (simp add: intersectsBoundingCap_def n2 Let_def)
  qed
  have c: "containsBoundingCap (Vec3d 1 0 0) 2 n2 d2 = (2 * d2 \<le> vidx n2 0)"
  proof
    assume "containsBoundingCap (Vec3d 1 0 0) 2 n2 d2"
    then show "2 * d2 \<le> vidx n2 0"
      by (auto simp: containsBoundingCap_def n2 Let_def)
  next
    assume a: "2 * d2 \<le> vidx n2 0"
    have "(1 - 2 * 2) * (1 - d2 * d2) \<le> (x - 2 * d2) * (x - 2 * d2)" using r sq' by linarith
    with a show "containsBoundingCap (Vec3d 1 0 0) 2 n2 d2"
      by (simp add: containsBoundingCap_def n2 Let_def)
  qed
  from i c show ?thesis by simp
qed

theorem empty_cap_exact_witness:
  "(-1::real) \<le> 3 / 4 \<and> (3 / 4::real) \<le> 1 \<and>
   \<not> intersectsBoundingCap (Vec3d 1 0 0) 2 (Vec3d 0 1 0) (3 / 4) \<and>
   \<not> containsBoundingCap (Vec3d 1 0 0) 2 (Vec3d 0 1 0) (3 / 4) \<and>
   intersectsBoundingCap (Vec3d 1 0 0) 2 (Vec3d 0 1 0) (- (1 / 2)) \<and>
   containsBoundingCap (Vec3d 1 0 0) 2 (Vec3d 0 1 0) (- (1 / 2))"
  using empty_cap_exact [of "3 / 4" "Vec3d 0 1 0"] empty_cap_exact [of "- (1 / 2)" "Vec3d 0 1 0"]
  by simp

section \<open>Projection and unprojection\<close>

lemma unproject_project_vec:
  assumes c: "c \<noteq> 0" and s: "a * x + b * y + c * z > 0" and u: "x * x + y * y + z * z = 1"
  shows "unprojectOctahedron
           (setZ (scale (Vec3d x y z) (1 / dot (Vec3d a b c) (Vec3d x y z))) 0) (Vec3d a b c)
         = Vec3d x y z"
proof -
  define s where "s = a * x + b * y + c * z"
  have spos: "s > 0" using s by (simp add: s_def)
  have z': "(1 - (a * (x / s) + b * (y / s))) / c = z / s"
  proof -
    have "1 - (a * (x / s) + b * (y / s)) = (s - (a * x + b * y)) / s"
      using spos by (simp add: field_simps)
    also have "\<dots> = c * z / s" by (simp add: s_def)
    finally show ?thesis using c by simp
  qed
  have len: "(x / s) * (x / s) + (y / s) * (y / s) + (z / s) * (z / s) = (1 / s) * (1 / s)"
  proof -
    have "(x / s) * (x / s) + (y / s) * (y / s) + (z / s) * (z / s)
          = (x * x + y * y + z * z) / (s * s)"
      by (simp add: add_divide_distrib)
    then show ?thesis using u by simp
  qed
  have sq: "sqrt ((x / s) * (x / s) + (y / s) * (y / s) + (z / s) * (z / s)) = 1 / s"
  proof -
    have "sqrt ((1 / s) * (1 / s)) = \<bar>1 / s\<bar>" by (rule real_sqrt_abs2)
    then show ?thesis unfolding len using spos by simp
  qed
  have "unprojectOctahedron (setZ (scale (Vec3d x y z) (1 / s)) 0) (Vec3d a b c)
        = normalize (Vec3d (x / s) (y / s) (z / s))"
    using z' by (simp add: unprojectOctahedron_def)
  also have "\<dots> = scale (Vec3d (x / s) (y / s) (z / s)) (1 / (1 / s))"
    by (simp only: normalize_def lengthSquared_def dot.simps sq)
  also have "\<dots> = Vec3d x y z"
    using spos by simp
  finally show ?thesis by (simp add: s_def)
qed

lemma sideDirections_z:
  assumes "i < 8"
  obtains a b c where "sideDirections ! i = Vec3d a b c" and "c \<noteq> 0"
proof -
  have "\<forall>n \<in> set sideDirections. vidx n 2 \<noteq> 0"
    by (simp add: sideDirections_def)
  moreover have "length sideDirections = 8"
    by (simp add: sideDirections_def)
  then have "sideDirections ! i \<in> set sideDirections"
    using assms by (intro nth_mem) simp
  ultimately have nz: "vidx (sideDirections ! i) 2 \<noteq> 0" by blast
  obtain a b c where n: "sideDirections ! i = Vec3d a b c"
    by (cases "sideDirections ! i")
  with nz have "c \<noteq> 0" by simp
  with n show ?thesis by (rule that)
qed

lemma unproject_projectVertex:
  assumes "i < 8" and "lengthSquared (vertex v) = 1" and "dot (sideDirections ! i) (vertex v) > 0"
  shows "unprojectOctahedron (vertex (projectVertex (sideDirections ! i) v)) (sideDirections ! i)
         = vertex v"
proof -
  obtain a b c where n: "sideDirections ! i = Vec3d a b c" and c: "c \<noteq> 0"
    using sideDirections_z[OF \<open>i < 8\<close>] by blast
  obtain x y z where v: "vertex v = Vec3d x y z" by (cases "vertex v")
  from assms(2) have u: "x * x + y * y + z * z = 1" by (simp add: v lengthSquared_def)
  from assms(3) have s: "a * x + b * y + c * z > 0" by (simp add: v n)
  show ?thesis
    using unproject_project_vec[OF c s u] by (simp add: projectVertex_def n v)
qed

text \<open>
  C6. For every face \<open>i\<close> and every vertex of a sub-contour of face \<open>i\<close> that is a unit
  vector \<open>v\<close> with \<open>sideDirections[i] \<cdot> v > 0\<close>: \<open>projectOnOctahedron\<close> followed by
  \<open>unprojectOctahedron\<close> with the same \<open>sideDirections[i]\<close> gives \<open>v\<close> back, in real
  arithmetic.
\<close>

theorem project_unproject_roundtrip:
  assumes "length inSides = 8" and "i < 8"
    and "k < length (inSides ! i)" and "j < length (inSides ! i ! k)"
    and "lengthSquared (vertex (inSides ! i ! k ! j)) = 1"
    and "dot (sideDirections ! i) (vertex (inSides ! i ! k ! j)) > 0"
  shows "\<exists>outSides. projectOnOctahedron inSides = Some outSides \<and>
           unprojectOctahedron (vertex (outSides ! i ! k ! j)) (sideDirections ! i)
             = vertex (inSides ! i ! k ! j)"
proof -
  let ?out = "map (\<lambda>i. map (map (projectVertex (sideDirections ! i))) (inSides ! i)) [0 ..< 8]"
  have p: "projectOnOctahedron inSides = Some ?out"
    using assms(1) by (simp add: projectOnOctahedron_def)
  have "?out ! i ! k ! j = projectVertex (sideDirections ! i) (inSides ! i ! k ! j)"
    using assms(2,3,4) by simp
  then have "unprojectOctahedron (vertex (?out ! i ! k ! j)) (sideDirections ! i)
             = vertex (inSides ! i ! k ! j)"
    using unproject_projectVertex[OF assms(2,5,6)] by simp
  with p show ?thesis by blast
qed

theorem project_unproject_roundtrip_witness:
  "\<exists>outSides. projectOnOctahedron
       [[[\<lparr>vertex = Vec3d (2/3) (2/3) (1/3), edgeFlag = True\<rparr>]], [], [], [], [], [], [], []]
         = Some outSides \<and>
     vertex (outSides ! 0 ! 0 ! 0) = Vec3d (2/5) (2/5) 0 \<and>
     unprojectOctahedron (vertex (outSides ! 0 ! 0 ! 0)) (sideDirections ! 0)
       = Vec3d (2/3) (2/3) (1/3)"
proof -
  from project_unproject_roundtrip
    [of "[[[\<lparr>vertex = Vec3d (2/3) (2/3) (1/3), edgeFlag = True\<rparr>]], [], [], [], [], [], [], []]" 0 0 0]
  obtain outSides where o: "projectOnOctahedron
       [[[\<lparr>vertex = Vec3d (2/3) (2/3) (1/3), edgeFlag = True\<rparr>]], [], [], [], [], [], [], []]
         = Some outSides"
    and u: "unprojectOctahedron (vertex (outSides ! 0 ! 0 ! 0)) (sideDirections ! 0)
       = Vec3d (2/3) (2/3) (1/3)"
    by (auto simp: lengthSquared_def sideDirections_def)
  from o have "vertex (outSides ! 0 ! 0 ! 0) = Vec3d (2/5) (2/5) 0"
    by (auto simp: projectOnOctahedron_def projectVertex_def sideDirections_def upt_rec)
  with o u show ?thesis by blast
qed

section \<open>Pole completion\<close>

lemma those_map_total:
  assumes "\<And>x. x \<in> set xs \<Longrightarrow> \<exists>y. f x = Some y"
  shows "those (map f xs) = Some (map (\<lambda>x. the (f x)) xs)"
  using assms
proof (induction xs)
  case Nil
  show ?case by simp
next
  case (Cons x xs)
  then obtain y where "f x = Some y" by (meson list.set_intros(1))
  with Cons show ?case by simp
qed

text \<open>
  What the completion does to each non-empty sub-contour \<open>c\<close> of a quadrant, with \<open>z\<close> the
  third component of the cross product of its first and last vertex: nothing when the last
  edge flag is set; else the south pole is appended when \<open>z > 0.00000001\<close>; else the north
  pole when \<open>z < -0.0000001\<close>; else nothing. The two literals differ by a factor of ten.
\<close>

lemma completeWithPole_each:
  assumes "[] \<notin> set quadrant"
  shows "\<exists>completed. those (map completeWithPole quadrant) = Some completed \<and>
           length completed = length quadrant \<and>
           (\<forall>i < length quadrant.
              completed ! i =
                (let c = quadrant ! i;
                     z = vidx (cross (vertex (hd c)) (vertex (last c))) 2
                 in if edgeFlag (last c) then c
                    else if z > 0.00000001 then c @ [\<lparr>vertex = Vec3d 0 0 (-1), edgeFlag = False\<rparr>]
                    else if z < - 0.0000001 then c @ [\<lparr>vertex = Vec3d 0 0 1, edgeFlag = False\<rparr>]
                    else c))"
proof -
  have tot: "\<exists>y. completeWithPole c = Some y" if "c \<in> set quadrant" for c
    using that assms by (auto simp: completeWithPole_def Let_def)
  have t: "those (map completeWithPole quadrant) = Some (map (\<lambda>c. the (completeWithPole c)) quadrant)"
    using tot by (rule those_map_total)
  have "map (\<lambda>c. the (completeWithPole c)) quadrant ! i =
                (let c = quadrant ! i;
                     z = vidx (cross (vertex (hd c)) (vertex (last c))) 2
                 in if edgeFlag (last c) then c
                    else if z > 0.00000001 then c @ [\<lparr>vertex = Vec3d 0 0 (-1), edgeFlag = False\<rparr>]
                    else if z < - 0.0000001 then c @ [\<lparr>vertex = Vec3d 0 0 1, edgeFlag = False\<rparr>]
                    else c)" if "i < length quadrant" for i
  proof -
    have "quadrant ! i \<noteq> []" using that assms by (metis nth_mem)
    then show ?thesis using that by (simp add: completeWithPole_def Let_def)
  qed
  with t show ?thesis by simp
qed


section \<open>Boolean operations on disjoint bounding caps\<close>









section \<open>The combine callback\<close>

lemma combineFlags_prefix:
  "combineFlags vd acc = (acc \<or> (\<exists>v. Some v \<in> set (takeWhile (\<lambda>p. p \<noteq> None) vd) \<and> edgeFlag v))"
proof (induction vd acc rule: combineFlags.induct)
  case (1 newFlag)
  show ?case by simp
next
  case (2 rest newFlag)
  show ?case by simp
next
  case (3 v rest newFlag)
  then show ?case by auto
qed

lemma takeWhile_trailing:
  "takeWhile (\<lambda>p. p \<noteq> None) (map Some vs @ replicate k None) = map Some vs"
  by (induction vs) (auto simp: takeWhile_eq_Nil_iff)

text \<open>
  Counterexample to C8 as stated. With \<open>vertex_data = {NULL, v, NULL, NULL}\<close> and the edge
  flag of \<open>v\<close> set, a contributing vertex is present and flagged, and the new vertex is not:
  the loop stops at the first null pointer.
\<close>

theorem combine_flag_counterexample:
  "[None, Some \<lparr>vertex = Vec3d 0 0 0, edgeFlag = True\<rparr>, None, None] ! 1
     = Some \<lparr>vertex = Vec3d 0 0 0, edgeFlag = True\<rparr> \<and>
   edgeFlag \<lparr>vertex = Vec3d 0 0 0, edgeFlag = True\<rparr> \<and>
   \<not> edgeFlag (fst (combineLineLoopCallback (0, 0, 0)
         [None, Some \<lparr>vertex = Vec3d 0 0 0, edgeFlag = True\<rparr>, None, None]
         \<lparr>result = [], resultList = [], tempVertices = []\<rparr>))"
  by (simp add: combineLineLoopCallback_def Let_def)

text \<open>
  C8, as the code has it. The edge flag of the vertex the callback creates is the logical
  OR of the edge flags of the entries of \<open>vertex_data\<close> that come before its first null
  pointer. When the null pointers are all at the end of the array (the contributing vertices
  \<open>vs\<close> first, then nulls up to four entries), this is the OR over all the vertices present.
\<close>

theorem combine_flag_prefix:
  assumes "length vertex_data = 4"
  shows "edgeFlag (fst (combineLineLoopCallback coords vertex_data userData))
           = (\<exists>v. Some v \<in> set (takeWhile (\<lambda>p. p \<noteq> None) vertex_data) \<and> edgeFlag v) \<and>
         (\<forall>vs. vertex_data = map Some vs @ replicate (4 - length vs) None \<longrightarrow>
            edgeFlag (fst (combineLineLoopCallback coords vertex_data userData))
              = (\<exists>v \<in> set vs. edgeFlag v))"
proof -
  have e: "edgeFlag (fst (combineLineLoopCallback coords vertex_data userData))
           = (\<exists>v. Some v \<in> set (takeWhile (\<lambda>p. p \<noteq> None) vertex_data) \<and> edgeFlag v)"
    using assms by (simp add: combineLineLoopCallback_def Let_def combineFlags_prefix)
  have "edgeFlag (fst (combineLineLoopCallback coords vertex_data userData))
              = (\<exists>v \<in> set vs. edgeFlag v)"
    if "vertex_data = map Some vs @ replicate (4 - length vs) None" for vs
  proof -
    have "takeWhile (\<lambda>p. p \<noteq> None) vertex_data = map Some vs"
      unfolding that by (rule takeWhile_trailing)
    then show ?thesis unfolding e by auto
  qed
  with e show ?thesis by blast
qed

theorem combine_flag_prefix_witness:
  "length [Some \<lparr>vertex = Vec3d 0 0 0, edgeFlag = False\<rparr>,
           Some \<lparr>vertex = Vec3d 1 0 0, edgeFlag = True\<rparr>, None, None] = 4 \<and>
   edgeFlag (fst (combineLineLoopCallback (0, 0, 0)
      [Some \<lparr>vertex = Vec3d 0 0 0, edgeFlag = False\<rparr>,
       Some \<lparr>vertex = Vec3d 1 0 0, edgeFlag = True\<rparr>, None, None]
      \<lparr>result = [], resultList = [], tempVertices = []\<rparr>))
   = (\<exists>v \<in> set [\<lparr>vertex = Vec3d 0 0 0, edgeFlag = False\<rparr>,
                   \<lparr>vertex = Vec3d 1 0 0, edgeFlag = True\<rparr>]. edgeFlag v)"
proof -
  have l: "length [Some \<lparr>vertex = Vec3d 0 0 0, edgeFlag = False\<rparr>,
           Some \<lparr>vertex = Vec3d 1 0 0, edgeFlag = True\<rparr>, None, None] = 4" by simp
  have v: "[Some \<lparr>vertex = Vec3d 0 0 0, edgeFlag = False\<rparr>,
           Some \<lparr>vertex = Vec3d 1 0 0, edgeFlag = True\<rparr>, None, None]
        = map Some [\<lparr>vertex = Vec3d 0 0 0, edgeFlag = False\<rparr>,
                    \<lparr>vertex = Vec3d 1 0 0, edgeFlag = True\<rparr>]
          @ replicate (4 - length [\<lparr>vertex = Vec3d 0 0 0, edgeFlag = False\<rparr>,
                    \<lparr>vertex = Vec3d 1 0 0, edgeFlag = True\<rparr>]) None"
    by (simp add: numeral_2_eq_2)
  from combine_flag_prefix[OF l, of "(0, 0, 0)" "\<lparr>result = [], resultList = [], tempVertices = []\<rparr>"] v l
  show ?thesis by blast
qed

section \<open>Queries and JSON dump\<close>

text \<open>
  C9. When the fill vertex array holds at least three vertices, \<open>getPointInside\<close> returns
  the normalised sum of its first three vertices and every read is in range; when it holds
  fewer (an empty region has none), a read at index 0, 1 or 2 is out of range, which is the
  error \<open>None\<close>.
\<close>

theorem getPointInside_bounds:
  "getPointInside p =
     (if 3 \<le> length (fillCachedVertexArray p)
      then Some (normalize (vadd (vadd (fillCachedVertexArray p ! 0) (fillCachedVertexArray p ! 1))
                                 (fillCachedVertexArray p ! 2)))
      else None)"
  by (simp add: getPointInside_def vectorAt_def Let_def)

theorem getPointInside_bounds_witness:
  "getPointInside \<lparr>sides = [], fillCachedVertexArray = [Vec3d 1 0 0, Vec3d 0 1 0, Vec3d 0 0 1],
       outlineCachedVertexArray = [], capN = Vec3d 1 0 0, capD = 2\<rparr>
     = Some (normalize (Vec3d 1 1 1)) \<and>
   getPointInside \<lparr>sides = [], fillCachedVertexArray = [],
       outlineCachedVertexArray = [], capN = Vec3d 1 0 0, capD = 2\<rparr> = None \<and>
   getPointInside \<lparr>sides = [], fillCachedVertexArray = [Vec3d 1 0 0, Vec3d 0 1 0],
       outlineCachedVertexArray = [], capN = Vec3d 1 0 0, capD = 2\<rparr> = None"
  using getPointInside_bounds
    [of "\<lparr>sides = [], fillCachedVertexArray = [Vec3d 1 0 0, Vec3d 0 1 0, Vec3d 0 0 1],
       outlineCachedVertexArray = [], capN = Vec3d 1 0 0, capD = 2\<rparr>"]
    getPointInside_bounds
    [of "\<lparr>sides = [], fillCachedVertexArray = [],
       outlineCachedVertexArray = [], capN = Vec3d 1 0 0, capD = 2\<rparr>"]
    getPointInside_bounds
    [of "\<lparr>sides = [], fillCachedVertexArray = [Vec3d 1 0 0, Vec3d 0 1 0],
       outlineCachedVertexArray = [], capN = Vec3d 1 0 0, capD = 2\<rparr>"]
  by simp

lemma toJSONLoop_snoc:
  "toJSONLoop r n (c @ [v]) = toJSONLoop r n c @ vertexJSON r n v"
  by (simp add: toJSONLoop_def)

lemma vertexJSON_shape: "\<exists>item. vertexJSON r n v = item @ '',''"
proof -
  obtain ra dec where rd: "r (vertex v) = (ra, dec)" by (cases "r (vertex v)")
  have "vertexJSON r n v =
          (''['' @ n (ra * 180 / pi) @ '','' @ n (dec * 180 / pi) @ '','' @
           (if edgeFlag v then ''true'' else ''false'') @ '']'') @ '',''"
    by (simp add: vertexJSON_def rd)
  then show ?thesis by blast
qed

lemma toJSONLoop_head: "\<exists>body. toJSONLoop r n c = ''['' @ body"
proof (induction c rule: rev_induct)
  case Nil
  show ?case by (simp add: toJSONLoop_def)
next
  case (snoc v c)
  then obtain body where "toJSONLoop r n c = ''['' @ body" by blast
  then have "toJSONLoop r n (c @ [v]) = ''['' @ (body @ vertexJSON r n v)"
    by (simp add: toJSONLoop_snoc)
  then show ?case by blast
qed

lemma toJSONLoop_nonempty:
  assumes "c \<noteq> []"
  shows "\<exists>body. toJSONLoop r n c = ''['' @ body @ '',''"
proof -
  from assms obtain c' v where c: "c = c' @ [v]" by (metis rev_exhaust)
  obtain body where b: "toJSONLoop r n c' = ''['' @ body" using toJSONLoop_head by blast
  obtain item where i: "vertexJSON r n v = item @ '',''" using vertexJSON_shape by blast
  have "toJSONLoop r n c = ''['' @ (body @ item) @ '',''"
    by (simp add: c toJSONLoop_snoc b i)
  then show ?thesis by blast
qed

lemma replace_last: "(xs @ [y])[length (xs @ [y]) - 1 := z] = xs @ [z]"
  by simp

text \<open>
  C10. \<open>toJSON\<close> of the empty sub-contour is the one character \<open>]\<close>, not \<open>[]\<close>: the
  replacement of the last character overwrites the opening bracket. For a non-empty
  sub-contour the loop leaves \<open>[\<close>, a body and a final comma, and \<open>toJSON\<close> returns the
  same \<open>[\<close> and body with \<open>]\<close> in the place of that comma.
\<close>

theorem toJSON_empty_and_nonempty:
  "toJSON rectToSphe number [] = '']'' \<and>
   (c \<noteq> [] \<longrightarrow>
      (\<exists>body. toJSONLoop rectToSphe number c = ''['' @ body @ '','' \<and>
              toJSON rectToSphe number c = ''['' @ body @ '']''))"
proof
  show "toJSON rectToSphe number [] = '']''"
    by (simp add: toJSON_def toJSONLoop_def)
next
  show "c \<noteq> [] \<longrightarrow>
      (\<exists>body. toJSONLoop rectToSphe number c = ''['' @ body @ '','' \<and>
              toJSON rectToSphe number c = ''['' @ body @ '']'')"
  proof
    assume "c \<noteq> []"
    then obtain body where b: "toJSONLoop rectToSphe number c = ''['' @ body @ '',''"
      using toJSONLoop_nonempty by blast
    have "toJSON rectToSphe number c = ((''['' @ body) @ '','')[length ((''['' @ body) @ '','') - 1 := CHR '']'']"
      by (simp add: toJSON_def b)
    also have "\<dots> = (''['' @ body) @ '']''" by (rule replace_last)
    finally have "toJSON rectToSphe number c = ''['' @ body @ '']''" by simp
    with b show "\<exists>body. toJSONLoop rectToSphe number c = ''['' @ body @ '','' \<and>
              toJSON rectToSphe number c = ''['' @ body @ '']''" by blast
  qed
qed

theorem toJSON_empty_and_nonempty_witness:
  "toJSON (\<lambda>v. (0, 0)) (\<lambda>x. ''0'') [] = '']'' \<and>
   [\<lparr>vertex = Vec3d 1 0 0, edgeFlag = True\<rparr>] \<noteq> [] \<and>
   (\<exists>body. toJSONLoop (\<lambda>v. (0, 0)) (\<lambda>x. ''0'') [\<lparr>vertex = Vec3d 1 0 0, edgeFlag = True\<rparr>]
              = ''['' @ body @ '','' \<and>
           toJSON (\<lambda>v. (0, 0)) (\<lambda>x. ''0'') [\<lparr>vertex = Vec3d 1 0 0, edgeFlag = True\<rparr>]
              = ''['' @ body @ '']'')"
  using toJSON_empty_and_nonempty
    [of "\<lambda>v. (0, 0)" "\<lambda>x. ''0''" "[\<lparr>vertex = Vec3d 1 0 0, edgeFlag = True\<rparr>]"]
  by simp


section \<open>The plane splitter\<close>

lemma getSide_01: "getSide v onLine = 0 \<or> getSide v onLine = 1"
  by (simp add: getSide_def)

lemma fitsSide_original:
  "ev \<in> set inputContour \<Longrightarrow> fitsSide gci onLine inputContour (getSide (vertex ev) onLine) ev"
  by (simp add: fitsSide_def originalVertex_def)

lemma fitsSide_cleared:
  assumes "fitsSide gci onLine inputContour q ev"
  shows "fitsSide gci onLine inputContour q (ev\<lparr>edgeFlag := False\<rparr>)"
proof -
  from assms consider (orig) "originalVertex inputContour ev" "getSide (vertex ev) onLine = q"
    | (cut) "cutVertex gci onLine inputContour ev"
    by (auto simp: fitsSide_def)
  then show ?thesis
  proof cases
    case orig
    from orig(1) have "originalVertex inputContour (ev\<lparr>edgeFlag := False\<rparr>)"
      by (auto simp: originalVertex_def)
    with orig(2) show ?thesis by (simp add: fitsSide_def)
  next
    case cut
    then have "cutVertex gci onLine inputContour (ev\<lparr>edgeFlag := False\<rparr>)"
      by (simp add: cutVertex_def)
    then show ?thesis by (simp add: fitsSide_def)
  qed
qed

lemma fitsSide_cut:
  assumes "p \<in> set inputContour" "q \<in> set inputContour"
    and "gci (vertex p) (vertex q) (plan onLine) = Some tmpVertex"
  shows "fitsSide gci onLine inputContour s \<lparr>vertex = tmpVertex, edgeFlag = False\<rparr>"
  using assms by (auto simp: fitsSide_def cutVertex_def)

lemma setLastEdgeFlagFalse_fits:
  assumes "setLastEdgeFlagFalse c = Some c'"
    and "\<forall>ev \<in> set c. fitsSide gci onLine inputContour q ev"
  shows "\<forall>ev \<in> set c'. fitsSide gci onLine inputContour q ev"
proof -
  from assms(1) have ne: "c \<noteq> []" and c': "c' = butlast c @ [(last c)\<lparr>edgeFlag := False\<rparr>]"
    by (auto simp: setLastEdgeFlagFalse_def split: if_splits)
  have "\<forall>ev \<in> set (butlast c). fitsSide gci onLine inputContour q ev"
    using assms(2) by (meson in_set_butlastD)
  moreover have "fitsSide gci onLine inputContour q ((last c)\<lparr>edgeFlag := False\<rparr>)"
    using assms(2) ne by (intro fitsSide_cleared) simp
  ultimately show ?thesis by (simp add: c')
qed

lemma setLastEdgeFlagFalse_total: "c \<noteq> [] \<Longrightarrow> \<exists>c'. setLastEdgeFlagFalse c = Some c'"
  by (simp add: setLastEdgeFlagFalse_def)

lemma setLastEdgeFlagFalse_nonempty: "setLastEdgeFlagFalse c = Some c' \<Longrightarrow> c' \<noteq> []"
  by (auto simp: setLastEdgeFlagFalse_def split: if_splits)

lemma resultFits_append:
  assumes "resultFits gci onLine inputContour r"
    and "\<forall>ev \<in> set c. fitsSide gci onLine inputContour q ev"
    and "q = 0 \<or> q = 1" and "c \<noteq> []"
  shows "resultFits gci onLine inputContour (appendToResult q c r)"
  using assms by (auto simp: resultFits_def appendToResult_def)

lemma firstLoop_inv:
  assumes "set xs \<subseteq> set inputContour"
    and "\<forall>ev \<in> set (unfinishedSubContour st). fitsSide gci onLine inputContour (previousQuadrant st) ev"
    and "currentSubContour st = []"
    and "previousVertex st \<in> set inputContour"
    and "(currentQuadrant st = previousQuadrant st \<and> unfinishedSubContour st \<noteq> []) \<or>
         (xs \<noteq> [] \<and> getSide (vertex (hd xs)) onLine = previousQuadrant st)"
    and "firstLoop gci onLine xs st = (st1, rest)"
  shows "splitResult st1 = splitResult st \<and>
         (\<forall>ev \<in> set (unfinishedSubContour st1).
            fitsSide gci onLine inputContour (previousQuadrant st) ev) \<and>
         (\<forall>ev \<in> set (currentSubContour st1).
            fitsSide gci onLine inputContour (previousQuadrant st1) ev) \<and>
         previousVertex st1 \<in> set inputContour \<and> set rest \<subseteq> set inputContour \<and>
         currentQuadrant st1 = previousQuadrant st1 \<and> unfinishedSubContour st1 \<noteq> [] \<and>
         (rest = [] \<longrightarrow> previousQuadrant st1 = previousQuadrant st \<and> currentSubContour st1 = []) \<and>
         (rest \<noteq> [] \<longrightarrow> getSide (vertex (hd rest)) onLine = previousQuadrant st1)"
  using assms
proof (induction xs arbitrary: st)
  case Nil
  then show ?case by simp
next
  case (Cons x xs)
  let ?cq = "getSide (vertex x) onLine"
  have xin: "x \<in> set inputContour" using Cons.prems(1) by simp
  show ?case
  proof (cases "?cq = previousQuadrant st")
    case True
    let ?st' = "st\<lparr>unfinishedSubContour := unfinishedSubContour st @ [x],
                    currentQuadrant := ?cq, previousVertex := x\<rparr>"
    have run: "firstLoop gci onLine xs ?st' = (st1, rest)"
      using Cons.prems(6) True by (simp add: Let_def)
    have fx: "fitsSide gci onLine inputContour (previousQuadrant st) x"
      using fitsSide_original[OF xin, of gci onLine] True by simp
    have "splitResult st1 = splitResult ?st' \<and>
         (\<forall>ev \<in> set (unfinishedSubContour st1).
            fitsSide gci onLine inputContour (previousQuadrant ?st') ev) \<and>
         (\<forall>ev \<in> set (currentSubContour st1).
            fitsSide gci onLine inputContour (previousQuadrant st1) ev) \<and>
         previousVertex st1 \<in> set inputContour \<and> set rest \<subseteq> set inputContour \<and>
         currentQuadrant st1 = previousQuadrant st1 \<and> unfinishedSubContour st1 \<noteq> [] \<and>
         (rest = [] \<longrightarrow> previousQuadrant st1 = previousQuadrant ?st' \<and> currentSubContour st1 = []) \<and>
         (rest \<noteq> [] \<longrightarrow> getSide (vertex (hd rest)) onLine = previousQuadrant st1)"
    proof (rule Cons.IH[OF _ _ _ _ _ run])
      show "set xs \<subseteq> set inputContour" using Cons.prems(1) by simp
      show "\<forall>ev \<in> set (unfinishedSubContour ?st').
              fitsSide gci onLine inputContour (previousQuadrant ?st') ev"
        using Cons.prems(2) fx by simp
      show "currentSubContour ?st' = []" using Cons.prems(3) by simp
      show "previousVertex ?st' \<in> set inputContour" using xin by simp
      show "(currentQuadrant ?st' = previousQuadrant ?st' \<and> unfinishedSubContour ?st' \<noteq> []) \<or>
            (xs \<noteq> [] \<and> getSide (vertex (hd xs)) onLine = previousQuadrant ?st')"
        using True by simp
    qed
    then show ?thesis by simp
  next
    case False
    show ?thesis
    proof (cases "gci (vertex (previousVertex st)) (vertex x) (plan onLine)")
      case None
      then have "st1 = st\<lparr>currentQuadrant := ?cq, previousQuadrant := ?cq\<rparr>" and "rest = x # xs"
        using Cons.prems(6) False by (simp_all add: Let_def)
      moreover have "unfinishedSubContour st \<noteq> []" using Cons.prems(5) False by simp
      ultimately show ?thesis using Cons.prems(1,2,3,4) by simp
    next
      case (Some tmpVertex)
      let ?cut = "\<lparr>vertex = tmpVertex, edgeFlag = False\<rparr>"
      have st1: "st1 = st\<lparr>unfinishedSubContour := unfinishedSubContour st @ [?cut],
                            currentSubContour := currentSubContour st @ [?cut],
                            currentQuadrant := ?cq, previousQuadrant := ?cq\<rparr>"
        and rest: "rest = x # xs"
        using Cons.prems(6) False Some by (simp_all add: Let_def)
      have cut: "fitsSide gci onLine inputContour s ?cut" for s
        using Cons.prems(4) xin Some by (rule fitsSide_cut)
      show ?thesis using Cons.prems(1,2,3,4) cut by (simp add: st1 rest)
    qed
  qed
qed

lemma secondLoop_inv:
  assumes "set xs \<subseteq> set inputContour"
    and "resultFits gci onLine inputContour (splitResult st)"
    and "\<forall>ev \<in> set (currentSubContour st). fitsSide gci onLine inputContour (previousQuadrant st) ev"
    and "previousVertex st \<in> set inputContour"
    and "xs \<noteq> [] \<longrightarrow>
           currentSubContour st \<noteq> [] \<or> getSide (vertex (hd xs)) onLine = previousQuadrant st"
    and "previousQuadrant st = 0 \<or> previousQuadrant st = 1"
    and "currentQuadrant st = previousQuadrant st"
  shows "\<exists>st2. secondLoop gci onLine xs st = Some st2 \<and>
           resultFits gci onLine inputContour (splitResult st2) \<and>
           (\<forall>ev \<in> set (currentSubContour st2).
              fitsSide gci onLine inputContour (previousQuadrant st2) ev) \<and>
           previousVertex st2 \<in> set inputContour \<and>
           currentQuadrant st2 = previousQuadrant st2 \<and>
           (previousQuadrant st2 = 0 \<or> previousQuadrant st2 = 1) \<and>
           unfinishedSubContour st2 = unfinishedSubContour st \<and>
           (xs \<noteq> [] \<longrightarrow> currentSubContour st2 \<noteq> []) \<and>
           (xs = [] \<longrightarrow> st2 = st)"
  using assms
proof (induction xs arbitrary: st)
  case Nil
  then show ?case by simp
next
  case (Cons x xs)
  let ?cq = "getSide (vertex x) onLine"
  have xin: "x \<in> set inputContour" and xsin: "set xs \<subseteq> set inputContour"
    using Cons.prems(1) by simp_all
  have fx: "fitsSide gci onLine inputContour ?cq x"
    using xin by (rule fitsSide_original)
  have cq01: "?cq = 0 \<or> ?cq = 1" by (rule getSide_01)
  have step: ?case
    if run: "secondLoop gci onLine (x # xs) st = secondLoop gci onLine xs st'"
      and r: "resultFits gci onLine inputContour (splitResult st')"
      and c: "\<forall>ev \<in> set (currentSubContour st').
                fitsSide gci onLine inputContour (previousQuadrant st') ev"
      and pv: "previousVertex st' \<in> set inputContour"
      and ne: "currentSubContour st' \<noteq> []"
      and q: "previousQuadrant st' = 0 \<or> previousQuadrant st' = 1"
      and cp: "currentQuadrant st' = previousQuadrant st'"
      and u: "unfinishedSubContour st' = unfinishedSubContour st"
    for st'
  proof -
    from ne have "xs \<noteq> [] \<longrightarrow>
           currentSubContour st' \<noteq> [] \<or> getSide (vertex (hd xs)) onLine = previousQuadrant st'"
      by simp
    from Cons.IH[OF xsin r c pv this q cp]
    obtain st2 where st2: "secondLoop gci onLine xs st' = Some st2"
      "resultFits gci onLine inputContour (splitResult st2)"
      "\<forall>ev \<in> set (currentSubContour st2).
              fitsSide gci onLine inputContour (previousQuadrant st2) ev"
      "previousVertex st2 \<in> set inputContour"
      "currentQuadrant st2 = previousQuadrant st2"
      "previousQuadrant st2 = 0 \<or> previousQuadrant st2 = 1"
      "unfinishedSubContour st2 = unfinishedSubContour st'"
      "xs \<noteq> [] \<longrightarrow> currentSubContour st2 \<noteq> []"
      "xs = [] \<longrightarrow> st2 = st'"
      by blast
    have "currentSubContour st2 \<noteq> []" using st2(8,9) ne by (cases "xs = []") auto
    with st2 run u show ?thesis by simp
  qed
  show ?case
  proof (cases "?cq = previousQuadrant st")
    case True
    let ?st' = "st\<lparr>currentSubContour := currentSubContour st @ [x],
                    currentQuadrant := ?cq, previousVertex := x\<rparr>"
    show ?thesis
    proof (rule step[of ?st'])
      show "secondLoop gci onLine (x # xs) st = secondLoop gci onLine xs ?st'"
        using True by (simp add: Let_def)
      show "resultFits gci onLine inputContour (splitResult ?st')"
        using Cons.prems(2) by simp
      show "\<forall>ev \<in> set (currentSubContour ?st').
              fitsSide gci onLine inputContour (previousQuadrant ?st') ev"
        using Cons.prems(3) fx True by simp
      show "previousVertex ?st' \<in> set inputContour" using xin by simp
      show "currentSubContour ?st' \<noteq> []" by simp
      show "previousQuadrant ?st' = 0 \<or> previousQuadrant ?st' = 1"
        using Cons.prems(6) by simp
      show "currentQuadrant ?st' = previousQuadrant ?st'" using True by simp
      show "unfinishedSubContour ?st' = unfinishedSubContour st" by simp
    qed
  next
    case False
    then have cne: "currentSubContour st \<noteq> []" using Cons.prems(5) by simp
    show ?thesis
    proof (cases "gci (vertex (previousVertex st)) (vertex x) (plan onLine)")
      case None
      obtain finished where fin: "setLastEdgeFlagFalse (currentSubContour st) = Some finished"
        using setLastEdgeFlagFalse_total[OF cne] by blast
      have ffit: "\<forall>ev \<in> set finished. fitsSide gci onLine inputContour (previousQuadrant st) ev"
        using fin Cons.prems(3) by (rule setLastEdgeFlagFalse_fits)
      let ?st' = "st\<lparr>splitResult := appendToResult (previousQuadrant st) finished (splitResult st),
                      currentSubContour := [x\<lparr>edgeFlag := False\<rparr>],
                      previousQuadrant := ?cq, currentQuadrant := ?cq,
                      previousVertex := x\<rparr>"
      show ?thesis
      proof (rule step[of ?st'])
        show "secondLoop gci onLine (x # xs) st = secondLoop gci onLine xs ?st'"
          using False None fin by (simp add: Let_def)
        show "resultFits gci onLine inputContour (splitResult ?st')"
          using resultFits_append[OF Cons.prems(2) ffit Cons.prems(6)]
            setLastEdgeFlagFalse_nonempty[OF fin] by simp
        show "\<forall>ev \<in> set (currentSubContour ?st').
                fitsSide gci onLine inputContour (previousQuadrant ?st') ev"
          using fitsSide_cleared[OF fx] by simp
        show "previousVertex ?st' \<in> set inputContour" using xin by simp
        show "currentSubContour ?st' \<noteq> []" by simp
        show "previousQuadrant ?st' = 0 \<or> previousQuadrant ?st' = 1" using cq01 by simp
        show "currentQuadrant ?st' = previousQuadrant ?st'" by simp
        show "unfinishedSubContour ?st' = unfinishedSubContour st" by simp
      qed
    next
      case (Some tmpVertex)
      let ?cut = "\<lparr>vertex = tmpVertex, edgeFlag = False\<rparr>"
      have cut: "fitsSide gci onLine inputContour s ?cut" for s
        using Cons.prems(4) xin Some by (rule fitsSide_cut)
      have ffit: "\<forall>ev \<in> set (currentSubContour st @ [?cut]).
                    fitsSide gci onLine inputContour (previousQuadrant st) ev"
        using Cons.prems(3) cut by simp
      let ?st' = "st\<lparr>splitResult := appendToResult (previousQuadrant st)
                                       (currentSubContour st @ [?cut]) (splitResult st),
                      currentSubContour := [?cut, x],
                      previousQuadrant := ?cq, currentQuadrant := ?cq,
                      previousVertex := x\<rparr>"
      show ?thesis
      proof (rule step[of ?st'])
        show "secondLoop gci onLine (x # xs) st = secondLoop gci onLine xs ?st'"
          using False Some by (simp add: Let_def)
        show "resultFits gci onLine inputContour (splitResult ?st')"
          using resultFits_append[OF Cons.prems(2) ffit Cons.prems(6)] by simp
        show "\<forall>ev \<in> set (currentSubContour ?st').
                fitsSide gci onLine inputContour (previousQuadrant ?st') ev"
          using cut fx by simp
        show "previousVertex ?st' \<in> set inputContour" using xin by simp
        show "currentSubContour ?st' \<noteq> []" by simp
        show "previousQuadrant ?st' = 0 \<or> previousQuadrant ?st' = 1" using cq01 by simp
        show "currentQuadrant ?st' = previousQuadrant ?st'" by simp
        show "unfinishedSubContour ?st' = unfinishedSubContour st" by simp
      qed
    qed
  qed
qed

lemma closeContour_inv:
  assumes "resultFits gci onLine inputContour (splitResult st)"
    and "\<forall>ev \<in> set (currentSubContour st). fitsSide gci onLine inputContour (currentQuadrant st) ev"
    and "\<forall>ev \<in> set (unfinishedSubContour st).
           fitsSide gci onLine inputContour (getSide (vertex firstVertex) onLine) ev"
    and "previousVertex st \<in> set inputContour" and "firstVertex \<in> set inputContour"
    and "currentQuadrant st = 0 \<or> currentQuadrant st = 1"
    and "getSide (vertex firstVertex) onLine \<noteq> currentQuadrant st \<longrightarrow> currentSubContour st \<noteq> []"
    and "unfinishedSubContour st \<noteq> []"
  shows "\<exists>r. closeContour gci onLine firstVertex st = Some r \<and> resultFits gci onLine inputContour r"
proof -
  let ?cq = "getSide (vertex firstVertex) onLine"
  let ?pq = "currentQuadrant st"
  have cq01: "?cq = 0 \<or> ?cq = 1" by (rule getSide_01)
  show ?thesis
  proof (cases "?cq = ?pq")
    case True
    have "\<forall>ev \<in> set (currentSubContour st @ unfinishedSubContour st).
            fitsSide gci onLine inputContour ?cq ev"
      using assms(2,3) True by auto
    from resultFits_append[OF assms(1) this cq01] assms(8) True show ?thesis
      by (simp add: closeContour_def Let_def)
  next
    case False
    then have cne: "currentSubContour st \<noteq> []" using assms(7) by simp
    show ?thesis
    proof (cases "gci (vertex (previousVertex st)) (vertex firstVertex) (plan onLine)")
      case None
      obtain finished where fin: "setLastEdgeFlagFalse (currentSubContour st) = Some finished"
        using setLastEdgeFlagFalse_total[OF cne] by blast
      have ffit: "\<forall>ev \<in> set finished. fitsSide gci onLine inputContour ?pq ev"
        using fin assms(2) by (rule setLastEdgeFlagFalse_fits)
      have "resultFits gci onLine inputContour (appendToResult ?pq finished (splitResult st))"
        using assms(1) ffit assms(6) setLastEdgeFlagFalse_nonempty[OF fin]
        by (rule resultFits_append)
      from resultFits_append[OF this assms(3) cq01 assms(8)] False None fin show ?thesis
        by (simp add: closeContour_def Let_def)
    next
      case (Some tmpVertex)
      let ?cut = "\<lparr>vertex = tmpVertex, edgeFlag = False\<rparr>"
      have cut: "fitsSide gci onLine inputContour s ?cut" for s
        using assms(4,5) Some by (rule fitsSide_cut)
      have f1: "\<forall>ev \<in> set (currentSubContour st @ [?cut]). fitsSide gci onLine inputContour ?pq ev"
        using assms(2) cut by simp
      have f2: "\<forall>ev \<in> set (?cut # unfinishedSubContour st). fitsSide gci onLine inputContour ?cq ev"
        using assms(3) cut by simp
      have "resultFits gci onLine inputContour
              (appendToResult ?pq (currentSubContour st @ [?cut]) (splitResult st))"
        using assms(1) f1 assms(6) by (rule resultFits_append) simp
      from resultFits_append[OF this f2 cq01] False Some show ?thesis
        by (simp add: closeContour_def Let_def)
    qed
  qed
qed

lemma splitContourByPlan_fits:
  assumes ne: "c \<noteq> []" and ax: "onLine < 3" and sub: "set c \<subseteq> set inputContour"
    and r: "resultFits gci onLine inputContour res0"
  shows "\<exists>r. splitContourByPlan gci onLine c res0 = Some r \<and>
              resultFits gci onLine inputContour r"
proof -
  let ?first = "hd c"
  let ?st0 = "\<lparr>currentSubContour = [], unfinishedSubContour = [],
               previousQuadrant = getSide (vertex ?first) onLine,
               currentQuadrant = 0, previousVertex = ?first, splitResult = res0\<rparr>"
  have fin: "?first \<in> set inputContour" using ne sub by auto
  obtain st1 rest where fl: "firstLoop gci onLine c ?st0 = (st1, rest)"
    by (cases "firstLoop gci onLine c ?st0")
  have "splitResult st1 = splitResult ?st0 \<and>
         (\<forall>ev \<in> set (unfinishedSubContour st1).
            fitsSide gci onLine inputContour (previousQuadrant ?st0) ev) \<and>
         (\<forall>ev \<in> set (currentSubContour st1).
            fitsSide gci onLine inputContour (previousQuadrant st1) ev) \<and>
         previousVertex st1 \<in> set inputContour \<and> set rest \<subseteq> set inputContour \<and>
         currentQuadrant st1 = previousQuadrant st1 \<and> unfinishedSubContour st1 \<noteq> [] \<and>
         (rest = [] \<longrightarrow> previousQuadrant st1 = previousQuadrant ?st0 \<and> currentSubContour st1 = []) \<and>
         (rest \<noteq> [] \<longrightarrow> getSide (vertex (hd rest)) onLine = previousQuadrant st1)"
    by (rule firstLoop_inv[OF _ _ _ _ _ fl]) (use ne sub fin in simp_all)
  then have s1: "splitResult st1 = res0"
    and u1: "\<forall>ev \<in> set (unfinishedSubContour st1).
            fitsSide gci onLine inputContour (getSide (vertex ?first) onLine) ev"
    and c1: "\<forall>ev \<in> set (currentSubContour st1).
            fitsSide gci onLine inputContour (previousQuadrant st1) ev"
    and p1: "previousVertex st1 \<in> set inputContour" and rin: "set rest \<subseteq> set inputContour"
    and q1: "currentQuadrant st1 = previousQuadrant st1"
    and n1: "unfinishedSubContour st1 \<noteq> []"
    and e1: "rest = [] \<longrightarrow> previousQuadrant st1 = getSide (vertex ?first) onLine"
    and h1: "rest \<noteq> [] \<longrightarrow> getSide (vertex (hd rest)) onLine = previousQuadrant st1"
    by simp_all
  have q01: "previousQuadrant st1 = 0 \<or> previousQuadrant st1 = 1"
  proof (cases "rest = []")
    case True
    with e1 getSide_01[of "vertex ?first" onLine] show ?thesis by simp
  next
    case False
    with h1 getSide_01[of "vertex (hd rest)" onLine] show ?thesis by simp
  qed
  have r1: "resultFits gci onLine inputContour (splitResult st1)" using r s1 by simp
  have h1': "rest \<noteq> [] \<longrightarrow>
           currentSubContour st1 \<noteq> [] \<or> getSide (vertex (hd rest)) onLine = previousQuadrant st1"
    using h1 by simp
  from secondLoop_inv[OF rin r1 c1 p1 h1' q01 q1]
  obtain st2 where sl: "secondLoop gci onLine rest st1 = Some st2"
    and r2: "resultFits gci onLine inputContour (splitResult st2)"
    and c2: "\<forall>ev \<in> set (currentSubContour st2).
              fitsSide gci onLine inputContour (previousQuadrant st2) ev"
    and p2: "previousVertex st2 \<in> set inputContour"
    and q2: "currentQuadrant st2 = previousQuadrant st2"
    and q201: "previousQuadrant st2 = 0 \<or> previousQuadrant st2 = 1"
    and u2: "unfinishedSubContour st2 = unfinishedSubContour st1"
    and n2: "rest \<noteq> [] \<longrightarrow> currentSubContour st2 \<noteq> []"
    and e2: "rest = [] \<longrightarrow> st2 = st1"
    by blast
  have cross: "getSide (vertex ?first) onLine \<noteq> currentQuadrant st2 \<longrightarrow> currentSubContour st2 \<noteq> []"
    using e1 e2 q1 n2 by (cases "rest = []") auto
  have "\<exists>r. closeContour gci onLine ?first st2 = Some r \<and> resultFits gci onLine inputContour r"
  proof (rule closeContour_inv[OF r2 _ _ p2 fin _ cross])
    show "\<forall>ev \<in> set (currentSubContour st2).
            fitsSide gci onLine inputContour (currentQuadrant st2) ev"
      using c2 q2 by simp
    show "\<forall>ev \<in> set (unfinishedSubContour st2).
           fitsSide gci onLine inputContour (getSide (vertex ?first) onLine) ev"
      using u1 u2 by simp
    show "currentQuadrant st2 = 0 \<or> currentQuadrant st2 = 1" using q201 q2 by simp
    show "unfinishedSubContour st2 \<noteq> []" using n1 u2 by simp
  qed
  then show ?thesis
    using ne ax fl sl by (simp add: splitContourByPlan_def Let_def)
qed





text \<open>
  C4 on a contour of three unit vectors some \<open>2e-6\<close> apart, \<open>A = (1,0,0)\<close> on side 0 of the
  plane Y=0 and \<open>B\<close>, \<open>C\<close> on side 1, with \<open>greatCircleIntersection\<close> failing at both
  crossings. No cut vertex is inserted and each vertex stays on its side. At the closing
  crossing \<open>C \<rightarrow> A\<close> the last vertex \<open>C\<close> of the sub-contour being closed gets
  \<open>edgeFlag = false\<close>; at the first crossing \<open>A \<rightarrow> B\<close> the last vertex \<open>A\<close> of its
  sub-contour keeps \<open>edgeFlag = true\<close>: the failure branch of the first loop is empty.
\<close>

theorem first_crossing_failure_keeps_flag:
  "splitContourByPlan (\<lambda>p q n. None) 1
     [\<lparr>vertex = Vec3d 1 0 0, edgeFlag = True\<rparr>,
      \<lparr>vertex = Vec3d (999999999999 / 1000000000001) (- (2000000 / 1000000000001)) 0,
       edgeFlag = True\<rparr>,
      \<lparr>vertex = Vec3d (499999999999 / 500000000001) (- (1000000 / 500000000001))
                       (1000000 / 500000000001),
       edgeFlag = True\<rparr>]
     ([], [])
   = Some ([[\<lparr>vertex = Vec3d 1 0 0, edgeFlag = True\<rparr>]],
           [[\<lparr>vertex = Vec3d (999999999999 / 1000000000001) (- (2000000 / 1000000000001)) 0,
              edgeFlag = True\<rparr>,
             \<lparr>vertex = Vec3d (499999999999 / 500000000001) (- (1000000 / 500000000001))
                              (1000000 / 500000000001),
              edgeFlag = False\<rparr>]])"
  by (simp add: splitContourByPlan_def Let_def getSide_def plan_def closeContour_def
        appendToResult_def setLastEdgeFlagFalse_def)


section \<open>The decomposition never reads an empty sub-contour\<close>

text \<open>
  On a non-empty contour the splitter returns and none of the sub-contours it returns is
  empty. Hence, in \<open>appendSubContour\<close>, the three rounds of splitting and the pole
  completion between them, which reads \<open>first()\<close> and \<open>last()\<close>, all succeed: the
  decomposition of a non-empty contour into a polygon of eight faces returns, changing
  the faces only.
\<close>

lemma splitContourByPlan_total:
  assumes "inputContour \<noteq> []" and "onLine < 3"
  shows "\<exists>r0 r1. splitContourByPlan gci onLine inputContour ([], []) = Some (r0, r1) \<and>
                  [] \<notin> set r0 \<and> [] \<notin> set r1"
proof -
  have "resultFits gci onLine inputContour ([], [])" by (simp add: resultFits_def)
  from splitContourByPlan_fits[OF assms subset_refl this]
  obtain r where r: "splitContourByPlan gci onLine inputContour ([], []) = Some r"
    and f: "resultFits gci onLine inputContour r" by blast
  obtain r0 r1 where r01: "r = (r0, r1)" by (cases r)
  from f have "[] \<notin> set r0" "[] \<notin> set r1" by (auto simp: resultFits_def r01)
  with r r01 show ?thesis by blast
qed

lemma splitAll_fits:
  assumes "[] \<notin> set cs" and "onLine < 3" and "\<forall>c \<in> set cs. set c \<subseteq> set allVertices"
    and "resultFits gci onLine allVertices res0"
  shows "\<exists>r. splitAll gci onLine cs res0 = Some r \<and> resultFits gci onLine allVertices r"
  using assms
proof (induction cs arbitrary: res0)
  case Nil
  then show ?case by simp
next
  case (Cons c cs)
  have "c \<noteq> []" "set c \<subseteq> set allVertices" using Cons.prems(1,3) by auto
  from splitContourByPlan_fits[OF this(1) Cons.prems(2) this(2) Cons.prems(4)]
  obtain r where r: "splitContourByPlan gci onLine c res0 = Some r"
    and f: "resultFits gci onLine allVertices r" by blast
  have "\<exists>r'. splitAll gci onLine cs r = Some r' \<and> resultFits gci onLine allVertices r'"
    using Cons.prems(1,2,3) f by (intro Cons.IH) auto
  with r show ?case by simp
qed

lemma splitAll_total:
  assumes "[] \<notin> set cs" and "onLine < 3"
  shows "\<exists>r. splitAll gci onLine cs ([], []) = Some r \<and> [] \<notin> set (fst r) \<and> [] \<notin> set (snd r)"
proof -
  have "\<forall>c \<in> set cs. set c \<subseteq> set (concat cs)" by auto
  moreover have "resultFits gci onLine (concat cs) ([], [])" by (simp add: resultFits_def)
  ultimately obtain r where "splitAll gci onLine cs ([], []) = Some r"
    and "resultFits gci onLine (concat cs) r"
    using splitAll_fits[OF assms] by blast
  then show ?thesis by (auto simp: resultFits_def)
qed

lemma completeWithPole_nonempty:
  "c \<noteq> [] \<Longrightarrow> \<exists>c'. completeWithPole c = Some c' \<and> c' \<noteq> []"
  by (simp add: completeWithPole_def Let_def)

lemma completeAndSplit_total:
  assumes "[] \<notin> set quadrant"
  shows "\<exists>r. completeAndSplit gci quadrant = Some r"
proof -
  have "\<And>c. c \<in> set quadrant \<Longrightarrow> \<exists>y. completeWithPole c = Some y"
    using assms completeWithPole_nonempty by metis
  then have t: "those (map completeWithPole quadrant)
             = Some (map (\<lambda>c. the (completeWithPole c)) quadrant)"
    by (rule those_map_total)
  have "[] \<notin> set (map (\<lambda>c. the (completeWithPole c)) quadrant)"
  proof
    assume "[] \<in> set (map (\<lambda>c. the (completeWithPole c)) quadrant)"
    then obtain c where c: "c \<in> set quadrant" "the (completeWithPole c) = []" by auto
    then have "c \<noteq> []" using assms by auto
    from completeWithPole_nonempty[OF this] c(2) show False by auto
  qed
  from splitAll_total[OF this, of 2 gci] t show ?thesis
    by (auto simp: completeAndSplit_def)
qed

lemma appendSubContour_total:
  assumes "inContour \<noteq> []" and "length (sides p) = 8"
  shows "\<exists>p'. appendSubContour gci inContour p = Some p' \<and> length (sides p') = 8 \<and>
              fillCachedVertexArray p' = fillCachedVertexArray p \<and>
              outlineCachedVertexArray p' = outlineCachedVertexArray p \<and>
              capN p' = capN p \<and> capD p' = capD p"
proof -
  obtain r0 r1 where s1: "splitContourByPlan gci 1 inContour ([], []) = Some (r0, r1)"
    and n1: "[] \<notin> set r0" "[] \<notin> set r1"
    using splitContourByPlan_total[OF assms(1), of 1 gci] by auto
  obtain v01 where v01: "splitAll gci 0 r0 ([], []) = Some v01"
    "[] \<notin> set (fst v01)" "[] \<notin> set (snd v01)"
    using splitAll_total[OF n1(1), of 0 gci] by auto
  obtain v23 where v23: "splitAll gci 0 r1 ([], []) = Some v23"
    "[] \<notin> set (fst v23)" "[] \<notin> set (snd v23)"
    using splitAll_total[OF n1(2), of 0 gci] by auto
  obtain r01 where r01: "completeAndSplit gci (fst v01) = Some r01"
    using completeAndSplit_total[OF v01(2)] by blast
  obtain r23 where r23: "completeAndSplit gci (snd v01) = Some r23"
    using completeAndSplit_total[OF v01(3)] by blast
  obtain r45 where r45: "completeAndSplit gci (fst v23) = Some r45"
    using completeAndSplit_total[OF v23(2)] by blast
  obtain r67 where r67: "completeAndSplit gci (snd v23) = Some r67"
    using completeAndSplit_total[OF v23(3)] by blast
  have s1': "splitContourByPlan gci (Suc 0) inContour ([], []) = Some (r0, r1)"
    using s1 by simp
  show ?thesis
    using assms(2) by (simp add: appendSubContour_def s1' v01(1) v23(1) r01 r23 r45 r67
        projectOnOctahedron_def)
qed

end
